theory Spec2Isabelle
  imports Main
begin

section \<open>Data model\<close>

text \<open>
  A shallow embedding of the pytest plugin \<^verbatim>\<open>pytest_otel\<close>: the hooks of
  \<^verbatim>\<open>plugin.py\<close> and the helpers of \<^verbatim>\<open>logging_handler.py\<close>.

  Node ids, phase names and outcomes are Python strings that the code only compares
  with each other and with ASCII literals; they are HOL strings. Captured output is
  sliced by length, and a Python \<^verbatim>\<open>str\<close> counts code points, so captured text
  is a list of code points.
\<close>

type_synonym str = "nat list"

text \<open>
  \<^verbatim>\<open>report.longrepr\<close> is \<^verbatim>\<open>None\<close>, a string, or a representation object
  (always truthy) that \<^verbatim>\<open>str()\<close> renders.
\<close>

datatype longrepr = NoLongrepr | LongreprStr str | LongreprObj str

fun longrepr_truthy :: "longrepr \<Rightarrow> bool" where
  "longrepr_truthy NoLongrepr = False"
| "longrepr_truthy (LongreprStr t) = (t \<noteq> [])"
| "longrepr_truthy (LongreprObj t) = True"

fun longrepr_str :: "longrepr \<Rightarrow> str" where
  "longrepr_str NoLongrepr = [78, 111, 110, 101]"
| "longrepr_str (LongreprStr t) = t"
| "longrepr_str (LongreprObj t) = t"

text \<open>
  The attributes of a pytest \<^verbatim>\<open>TestReport\<close> that the hooks read. The field
  \<open>when'\<close> is \<^verbatim>\<open>report.when\<close>. A captured stream is \<open>None\<close> when the attribute is
  missing or \<^verbatim>\<open>None\<close>.
\<close>

record report =
  when' :: string
  failed :: bool
  skipped :: bool
  outcome :: string
  capstdout :: "str option"
  capstderr :: "str option"
  longrepr :: longrepr

text \<open>Truthiness of an optional string: present and not empty.\<close>

fun truthy :: "str option \<Rightarrow> bool" where
  "truthy None = False"
| "truthy (Some t) = (t \<noteq> [])"

text \<open>
  What pytest's own \<^verbatim>\<open>TestReport\<close> class guarantees of the attributes: the
  outcome is one of three literals, and \<^verbatim>\<open>failed\<close> and \<^verbatim>\<open>skipped\<close> are
  properties that compare the outcome with a literal.
\<close>

definition TestReport :: "report \<Rightarrow> bool" where
  "TestReport r =
     ((outcome r = ''passed'' \<or> outcome r = ''failed'' \<or> outcome r = ''skipped'') \<and>
      failed r = (outcome r = ''failed'') \<and>
      skipped r = (outcome r = ''skipped''))"

text \<open>
  Python exceptions: \<^verbatim>\<open>except Exception\<close> catches the first kind only
  (\<^verbatim>\<open>KeyboardInterrupt\<close> and pytest's own control-flow exceptions are of the second).
\<close>

datatype exn = Exception string | BaseException string

record span =
  span_name :: string
  is_recording :: bool

text \<open>
  The context a log record is emitted with: \<^verbatim>\<open>context.get_current()\<close> or
  \<^verbatim>\<open>trace.set_span_in_context(span)\<close>.
\<close>

datatype otel_context = Current | SpanInContext span

datatype attr_value = AttrInt int | AttrBool bool

text \<open>The log record without its two timestamps, which read the clock.\<close>

record LogRecord =
  body :: str
  attributes :: "(string \<times> attr_value) list"
  log_context :: otel_context

text \<open>
  A message of the module's own logger: its level, its text and the node id it names (the
  text of a caught exception is left out).
\<close>

datatype diagnostic = Warning string string | Debug string string

text \<open>
  The state the hooks share: the module globals \<^verbatim>\<open>_enabled\<close> and
  \<^verbatim>\<open>_test_outcomes\<close>, the tracer's table of open test spans, and what has been handed
  to the collaborators so far: spans ended with their outcome, exceptions recorded on
  spans, log records emitted, and messages of the module's own logger.
\<close>

record plugin =
  enabled :: bool
  test_outcomes :: "string \<rightharpoonup> string"
  test_spans :: "string \<rightharpoonup> span"
  ended :: "(string \<times> span \<times> string) list"
  exceptions :: "(string \<times> exn) list"
  emitted :: "LogRecord list"
  diagnostics :: "diagnostic list"

text \<open>
  How the collaborators behave during one run: which tracer calls raise, whether
  \<^verbatim>\<open>get_logger()\<close> raises, which records the log pipeline refuses, and the span the
  tracer opens for a test.
\<close>

record env =
  start_test_fails :: "string \<Rightarrow> bool"
  end_test_fails :: "string \<Rightarrow> bool"
  record_exception_fails :: "string \<Rightarrow> bool"
  get_logger_fails :: bool
  emit_fails :: "LogRecord \<Rightarrow> bool"
  new_span :: "string \<Rightarrow> span"

section \<open>Dictionaries and the module logger\<close>

definition dict_get :: "('k \<rightharpoonup> 'v) \<Rightarrow> 'k \<Rightarrow> 'v \<Rightarrow> 'v" where
  "dict_get m k d = (case m k of None \<Rightarrow> d | Some v \<Rightarrow> v)"

definition dict_pop :: "('k \<rightharpoonup> 'v) \<Rightarrow> 'k \<Rightarrow> ('k \<rightharpoonup> 'v)" where
  "dict_pop m k = m(k := None)"

definition logger_warning :: "string \<Rightarrow> string \<Rightarrow> plugin \<Rightarrow> plugin" where
  "logger_warning msg nodeid s = s\<lparr>diagnostics := diagnostics s @ [Warning msg nodeid]\<rparr>"

definition logger_debug :: "string \<Rightarrow> string \<Rightarrow> plugin \<Rightarrow> plugin" where
  "logger_debug msg nodeid s = s\<lparr>diagnostics := diagnostics s @ [Debug msg nodeid]\<rparr>"

section \<open>Severity of a log level (\<^verbatim>\<open>logging_handler.py\<close>)\<close>

text \<open>The levels of Python's \<^verbatim>\<open>logging\<close> module.\<close>

definition logging_DEBUG :: int where "logging_DEBUG = 10"
definition logging_INFO :: int where "logging_INFO = 20"
definition logging_WARNING :: int where "logging_WARNING = 30"
definition logging_ERROR :: int where "logging_ERROR = 40"
definition logging_CRITICAL :: int where "logging_CRITICAL = 50"

text \<open>
  The members of OpenTelemetry's \<^verbatim>\<open>SeverityNumber\<close> that the module uses, and
  their numbers.
\<close>

datatype SeverityNumber = DEBUG | INFO | WARN | ERROR | FATAL

fun severity_value :: "SeverityNumber \<Rightarrow> nat" where
  "severity_value DEBUG = 5"
| "severity_value INFO = 9"
| "severity_value WARN = 13"
| "severity_value ERROR = 17"
| "severity_value FATAL = 21"

definition get_severity :: "int \<Rightarrow> SeverityNumber" where
  "get_severity level =
     (if level \<ge> logging_CRITICAL then FATAL
      else if level \<ge> logging_ERROR then ERROR
      else if level \<ge> logging_WARNING then WARN
      else if level \<ge> logging_INFO then INFO
      else DEBUG)"

section \<open>The tracer\<close>

text \<open>
  The module \<^verbatim>\<open>tracer\<close> is not among the sources; the hooks call four of its
  functions. Each is modelled from what the spec says of the Span Registry and of the Test
  Lifecycle Controller, and the first three may raise, as the hooks expect.
\<close>

text \<open>
  Modelled from the spec: \<^verbatim>\<open>tracer.start_test\<close> is missing. Starting a test creates a
  span and registers it under the test's identifier, replacing an earlier entry; failing to
  create the span raises.
\<close>

definition start_test :: "env \<Rightarrow> string \<Rightarrow> plugin \<Rightarrow> exn + plugin" where
  "start_test e nodeid s =
     (if start_test_fails e nodeid then Inl (Exception ''start_test'')
      else Inr (s\<lparr>test_spans := (test_spans s)(nodeid \<mapsto> new_span e nodeid)\<rparr>))"

text \<open>
  Modelled from the spec: \<^verbatim>\<open>tracer.end_test\<close> is missing. Ending a test closes the
  span registered for it with the outcome and removes the entry; with no entry there is
  nothing to close.
\<close>

definition end_test :: "env \<Rightarrow> string \<Rightarrow> string \<Rightarrow> plugin \<Rightarrow> exn + plugin" where
  "end_test e nodeid result s =
     (if end_test_fails e nodeid then Inl (Exception ''end_test'')
      else Inr (case test_spans s nodeid of
                  None \<Rightarrow> s
                | Some sp \<Rightarrow> s\<lparr>ended := ended s @ [(nodeid, sp, result)],
                               test_spans := (test_spans s)(nodeid := None)\<rparr>))"

text \<open>
  Modelled from the spec: \<^verbatim>\<open>tracer.record_exception\<close> is missing. It records the
  exception against the test.
\<close>

definition record_exception :: "env \<Rightarrow> string \<Rightarrow> exn \<Rightarrow> plugin \<Rightarrow> exn + plugin" where
  "record_exception e nodeid x s =
     (if record_exception_fails e nodeid then Inl (Exception ''record_exception'')
      else Inr (s\<lparr>exceptions := exceptions s @ [(nodeid, x)]\<rparr>))"

text \<open>
  Modelled from the spec: \<^verbatim>\<open>tracer.get_test_span\<close> is missing. The lookup returns the
  span registered for the test, or nothing.
\<close>

definition get_test_span :: "string \<Rightarrow> plugin \<Rightarrow> span option" where
  "get_test_span nodeid s = test_spans s nodeid"

section \<open>Emitting captured output (\<^verbatim>\<open>logging_handler.py\<close>)\<close>

definition STDIO_STREAM_STDOUT :: int where "STDIO_STREAM_STDOUT = 1"
definition STDIO_STREAM_STDERR :: int where "STDIO_STREAM_STDERR = 2"
definition STDIO_STREAM_ATTR :: string where "STDIO_STREAM_ATTR = ''stdio.stream''"
definition STDIO_EOF_ATTR :: string where "STDIO_EOF_ATTR = ''stdio.eof''"

text \<open>
  \<^verbatim>\<open>emit_stdio_log\<close>: \<^verbatim>\<open>get_logger()\<close> is called outside the \<^verbatim>\<open>try\<close>, so
  its exception leaves the function; an exception of the pipeline's \<^verbatim>\<open>emit\<close> is
  swallowed and the record is lost.
\<close>

definition emit_stdio_log ::
  "env \<Rightarrow> str \<Rightarrow> int \<Rightarrow> span option \<Rightarrow> bool \<Rightarrow> plugin \<Rightarrow> exn + plugin" where
  "emit_stdio_log e b stream sp eof s =
     (if get_logger_fails e then Inl (Exception ''get_logger'')
      else
        let attrs = (STDIO_STREAM_ATTR, AttrInt stream)
                    # (if eof then [(STDIO_EOF_ATTR, AttrBool True)] else []);
            ctx = (case sp of
                     Some x \<Rightarrow> if is_recording x then SpanInContext x else Current
                   | None \<Rightarrow> Current);
            r = \<lparr>body = b, attributes = attrs, log_context = ctx\<rparr>
        in if emit_fails e r then Inr s
           else Inr (s\<lparr>emitted := emitted s @ [r]\<rparr>))"

section \<open>The hooks (\<^verbatim>\<open>plugin.py\<close>)\<close>

text \<open>
  \<^verbatim>\<open>_capture_test_output\<close>. The result is the exception that leaves the function, if
  any, and the state at that point.
\<close>

definition capture_test_output ::
  "env \<Rightarrow> string \<Rightarrow> report \<Rightarrow> plugin \<Rightarrow> exn option \<times> plugin" where
  "capture_test_output e nodeid r s =
     (if when' r \<noteq> ''call'' \<and> \<not> failed r then (None, s)
      else
        let test_span = get_test_span nodeid s;
            s0 = (if test_span = None
                  then logger_debug ''No active span for test, logs may be misattributed'' nodeid s
                  else s)
        in case (if truthy (capstdout r)
                 then emit_stdio_log e (take 8192 (the (capstdout r)))
                        STDIO_STREAM_STDOUT test_span False s0
                 else Inr s0) of
             Inl x \<Rightarrow> (Some x, s0)
           | Inr s1 \<Rightarrow>
              (case (if truthy (capstderr r)
                     then emit_stdio_log e (take 8192 (the (capstderr r)))
                            STDIO_STREAM_STDERR test_span False s1
                     else Inr s1) of
                 Inl x \<Rightarrow> (Some x, s1)
               | Inr s2 \<Rightarrow>
                  (if failed r \<and> longrepr_truthy (longrepr r)
                   then (case emit_stdio_log e (take 16384 (longrepr_str (longrepr r)))
                                STDIO_STREAM_STDERR test_span False s2 of
                           Inl x \<Rightarrow> (Some x, s2)
                         | Inr s3 \<Rightarrow> (None, s3))
                   else (None, s2))))"

text \<open>
  The outcome tracking of \<^verbatim>\<open>pytest_runtest_makereport\<close> (the \<^verbatim>\<open>if\<close> chain
  on \<^verbatim>\<open>_test_outcomes\<close>): the worst outcome wins.
\<close>

definition track_outcome :: "(string \<rightharpoonup> string) \<Rightarrow> string \<Rightarrow> report \<Rightarrow> (string \<rightharpoonup> string)" where
  "track_outcome m nodeid r =
     (let current_outcome = dict_get m nodeid ''passed'' in
      if failed r then m(nodeid \<mapsto> ''failed'')
      else if skipped r \<and> current_outcome = ''passed'' then m(nodeid \<mapsto> ''skipped'')
      else if when' r = ''call'' \<and> current_outcome = ''passed'' then m(nodeid \<mapsto> outcome r)
      else m)"

text \<open>
  \<^verbatim>\<open>pytest_runtest_makereport\<close>, after the inner hooks have produced the report:
  \<open>excinfo\<close> is \<^verbatim>\<open>call.excinfo\<close>. Every exception of the tracer and of the capture
  is caught and logged, and the report is returned.
\<close>

definition pytest_runtest_makereport ::
  "env \<Rightarrow> string \<Rightarrow> exn option \<Rightarrow> report \<Rightarrow> plugin \<Rightarrow> report \<times> plugin" where
  "pytest_runtest_makereport e nodeid excinfo r s =
     (if \<not> enabled s then (r, s)
      else
        let s1 = s\<lparr>test_outcomes := track_outcome (test_outcomes s) nodeid r\<rparr>;
            s2 = (case excinfo of
                    None \<Rightarrow> s1
                  | Some x \<Rightarrow>
                     if when' r = ''call''
                     then (case record_exception e nodeid x s1 of
                             Inl err \<Rightarrow> logger_warning ''Failed to record exception'' nodeid s1
                           | Inr s' \<Rightarrow> s')
                     else s1);
            s3 = (case capture_test_output e nodeid r s2 of
                    (Some err, s') \<Rightarrow> logger_warning ''Failed to capture test output'' nodeid s'
                  | (None, s') \<Rightarrow> s')
        in (r, s3))"

text \<open>
  What happens at the \<^verbatim>\<open>yield\<close> of \<^verbatim>\<open>pytest_runtest_protocol\<close>: the runner
  executes the phases of the test, and each phase's report passes through
  \<^verbatim>\<open>pytest_runtest_makereport\<close>.
\<close>

fun run_reports :: "env \<Rightarrow> string \<Rightarrow> (report \<times> exn option) list \<Rightarrow> plugin \<Rightarrow> plugin" where
  "run_reports e nodeid [] s = s"
| "run_reports e nodeid ((r, excinfo) # rs) s =
     run_reports e nodeid rs (snd (pytest_runtest_makereport e nodeid excinfo r s))"

text \<open>The \<^verbatim>\<open>finally\<close> block of \<^verbatim>\<open>pytest_runtest_protocol\<close>.\<close>

definition finally_block :: "env \<Rightarrow> string \<Rightarrow> string \<Rightarrow> plugin \<Rightarrow> plugin" where
  "finally_block e nodeid result s =
     (let s1 = s\<lparr>test_outcomes := dict_pop (test_outcomes s) nodeid\<rparr>
      in case end_test e nodeid result s1 of
           Inl err \<Rightarrow> logger_warning ''Failed to end test span'' nodeid s1
         | Inr s2 \<Rightarrow> s2)"

text \<open>
  \<^verbatim>\<open>pytest_runtest_protocol\<close>. The wrapped execution is given by the phase reports
  it produces and by how it ends: \<open>Inr\<close> the result it returns, \<open>Inl\<close> the
  exception it raises. The hook returns the same way.
\<close>

definition pytest_runtest_protocol ::
  "env \<Rightarrow> string \<Rightarrow> (report \<times> exn option) list \<Rightarrow> exn + 'r \<Rightarrow> plugin \<Rightarrow> (exn + 'r) \<times> plugin" where
  "pytest_runtest_protocol e nodeid reports ending s =
     (if \<not> enabled s then (ending, run_reports e nodeid reports s)
      else
        let s1 = s\<lparr>test_outcomes := dict_pop (test_outcomes s) nodeid\<rparr>
        in case start_test e nodeid s1 of
             Inl err \<Rightarrow>
               (ending, run_reports e nodeid reports
                          (logger_warning ''Failed to start test span'' nodeid s1))
           | Inr s2 \<Rightarrow>
              (let s3 = run_reports e nodeid reports s2
               in case ending of
                    Inr result \<Rightarrow>
                      (Inr result,
                       finally_block e nodeid (dict_get (test_outcomes s3) nodeid ''passed'') s3)
                  | Inl (Exception msg) \<Rightarrow>
                      (case record_exception e nodeid (Exception msg) s3 of
                         Inl err \<Rightarrow> (Inl err, finally_block e nodeid ''error'' s3)
                       | Inr s4 \<Rightarrow> (Inl (Exception msg), finally_block e nodeid ''error'' s4))
                  | Inl (BaseException msg) \<Rightarrow>
                      (Inl (BaseException msg), finally_block e nodeid ''passed'' s3)))"

section \<open>Concrete runs\<close>

definition plugin0 :: plugin where
  "plugin0 = \<lparr>enabled = True, test_outcomes = Map.empty, test_spans = Map.empty,
              ended = [], exceptions = [], emitted = [], diagnostics = []\<rparr>"

definition env_ok :: env where
  "env_ok = \<lparr>start_test_fails = (\<lambda>n. False), end_test_fails = (\<lambda>n. False),
             record_exception_fails = (\<lambda>n. False), get_logger_fails = False,
             emit_fails = (\<lambda>r. False),
             new_span = (\<lambda>n. \<lparr>span_name = n, is_recording = True\<rparr>)\<rparr>"

definition env_no_span :: env where
  "env_no_span = env_ok\<lparr>start_test_fails := (\<lambda>n. True)\<rparr>"


definition report_of :: "string \<Rightarrow> string \<Rightarrow> report" where
  "report_of phase result =
     \<lparr>when' = phase, failed = (result = ''failed''), skipped = (result = ''skipped''),
      outcome = result, capstdout = None, capstderr = None, longrepr = NoLongrepr\<rparr>"

definition long_output_report :: report where
  "long_output_report =
     \<lparr>when' = ''call'', failed = True, skipped = False, outcome = ''failed'',
      capstdout = Some (replicate 8193 120), capstderr = Some [101, 114, 114],
      longrepr = LongreprObj (replicate 20000 70)\<rparr>"

section \<open>Derived notions\<close>

text \<open>
  The part of the state that emitting output and logging leave alone.
\<close>

definition core ::
  "plugin \<Rightarrow> bool \<times> (string \<rightharpoonup> string) \<times> (string \<rightharpoonup> span) \<times> (string \<times> span \<times> string) list" where
  "core s = (enabled s, test_outcomes s, test_spans s, ended s)"

text \<open>
  The context \<^verbatim>\<open>emit_stdio_log\<close> chooses for a span argument, the record it builds
  when \<^verbatim>\<open>eof\<close> is false, and the records \<^verbatim>\<open>_capture_test_output\<close> hands to it
  for a report, in the order of the three \<^verbatim>\<open>if\<close> statements.
\<close>

definition context_for :: "span option \<Rightarrow> otel_context" where
  "context_for sp =
     (case sp of Some x \<Rightarrow> if is_recording x then SpanInContext x else Current
      | None \<Rightarrow> Current)"

definition stdio_record :: "str \<Rightarrow> int \<Rightarrow> span option \<Rightarrow> LogRecord" where
  "stdio_record b stream sp =
     \<lparr>body = b, attributes = [(STDIO_STREAM_ATTR, AttrInt stream)],
      log_context = context_for sp\<rparr>"

definition artifacts :: "report \<Rightarrow> span option \<Rightarrow> LogRecord list" where
  "artifacts r sp =
     (if truthy (capstdout r)
      then [stdio_record (take 8192 (the (capstdout r))) STDIO_STREAM_STDOUT sp] else []) @
     (if truthy (capstderr r)
      then [stdio_record (take 8192 (the (capstderr r))) STDIO_STREAM_STDERR sp] else []) @
     (if failed r \<and> longrepr_truthy (longrepr r)
      then [stdio_record (take 16384 (longrepr_str (longrepr r))) STDIO_STREAM_STDERR sp]
      else [])"

definition note_missing_span :: "string \<Rightarrow> plugin \<Rightarrow> plugin" where
  "note_missing_span nodeid s =
     (if get_test_span nodeid s = None
      then logger_debug ''No active span for test, logs may be misattributed'' nodeid s
      else s)"

text \<open>The outcome tracking of a sequence of reports for one node id.\<close>

fun track_all :: "(string \<rightharpoonup> string) \<Rightarrow> string \<Rightarrow> report list \<Rightarrow> (string \<rightharpoonup> string)" where
  "track_all m n [] = m"
| "track_all m n (r # rs) = track_all (track_outcome m n r) n rs"

text \<open>
  The precedence of outcomes, \<open>failed > error > skipped > passed\<close>, and the worse of
  two outcomes under it.
\<close>

definition precedence :: "string \<Rightarrow> nat" where
  "precedence x = (if x = ''failed'' then 3 else if x = ''error'' then 2
                   else if x = ''skipped'' then 1 else 0)"

definition worse :: "string \<Rightarrow> string \<Rightarrow> string" where
  "worse a b = (if precedence a < precedence b then b else a)"

section \<open>Severity\<close>

lemma get_severity_mono:
  "l1 \<le> l2 \<Longrightarrow> severity_value (get_severity l1) \<le> severity_value (get_severity l2)"
  by (simp add: get_severity_def logging_CRITICAL_def logging_ERROR_def
      logging_WARNING_def logging_INFO_def)

section \<open>Emission in closed form\<close>

lemma core_simps [simp]:
  "core (s\<lparr>diagnostics := d\<rparr>) = core s"
  "core (s\<lparr>emitted := m\<rparr>) = core s"
  "core (s\<lparr>exceptions := x\<rparr>) = core s"
  by (simp_all add: core_def)

lemma emit_stdio_log_eq:
  "emit_stdio_log e b stream sp False s =
     (if get_logger_fails e then Inl (Exception ''get_logger'')
      else Inr (s\<lparr>emitted := emitted s @ filter (\<lambda>x. \<not> emit_fails e x) [stdio_record b stream sp]\<rparr>))"
  by (simp add: emit_stdio_log_def stdio_record_def context_for_def Let_def)

lemma capture_test_output_eq:
  "capture_test_output e n r s =
     (if when' r \<noteq> ''call'' \<and> \<not> failed r then (None, s)
      else if get_logger_fails e
      then (if artifacts r (get_test_span n s) = [] then None else Some (Exception ''get_logger''),
            note_missing_span n s)
      else (None, (note_missing_span n s)
                    \<lparr>emitted := emitted (note_missing_span n s)
                       @ filter (\<lambda>x. \<not> emit_fails e x) (artifacts r (get_test_span n s))\<rparr>))"
proof (cases "get_logger_fails e")
  case True
  then show ?thesis
    by (simp add: capture_test_output_def emit_stdio_log_eq artifacts_def note_missing_span_def Let_def)
next
  case False
  then show ?thesis
    by (simp add: capture_test_output_def emit_stdio_log_eq artifacts_def note_missing_span_def Let_def)
qed


section \<open>What a report changes\<close>

lemma record_exception_step_core:
  "core (case x of None \<Rightarrow> s1
         | Some y \<Rightarrow> if c then (case record_exception e n y s1 of
                                  Inl err \<Rightarrow> logger_warning msg n s1 | Inr s' \<Rightarrow> s')
                     else s1) = core s1"
  by (simp add: record_exception_def logger_warning_def split: option.split)

lemma capture_step_core:
  "core (case capture_test_output e n r s2 of
           (Some err, s') \<Rightarrow> logger_warning msg n s'
         | (None, s') \<Rightarrow> s') = core s2"
  by (simp add: capture_test_output_eq note_missing_span_def logger_debug_def logger_warning_def)

lemma makereport_core:
  "core (snd (pytest_runtest_makereport e n x r s)) =
     (if enabled s then core (s\<lparr>test_outcomes := track_outcome (test_outcomes s) n r\<rparr>)
      else core s)"
  by (simp add: pytest_runtest_makereport_def Let_def capture_step_core record_exception_step_core)

lemma makereport_fields:
  "enabled (snd (pytest_runtest_makereport e n x r s)) = enabled s"
  "test_spans (snd (pytest_runtest_makereport e n x r s)) = test_spans s"
  "ended (snd (pytest_runtest_makereport e n x r s)) = ended s"
  "test_outcomes (snd (pytest_runtest_makereport e n x r s)) =
     (if enabled s then track_outcome (test_outcomes s) n r else test_outcomes s)"
  using makereport_core [of e n x r s] by (simp_all add: core_def split: if_splits)

lemma run_reports_fields:
  "enabled (run_reports e n rs s) = enabled s"
  "test_spans (run_reports e n rs s) = test_spans s"
  "ended (run_reports e n rs s) = ended s"
  "test_outcomes (run_reports e n rs s) =
     (if enabled s then track_all (test_outcomes s) n (map fst rs) else test_outcomes s)"
  by (induction e n rs s rule: run_reports.induct) (simp_all add: makereport_fields)

section \<open>The tracked outcome\<close>

lemma track_outcome_other: "a \<noteq> b \<Longrightarrow> track_outcome m a r b = m b"
  by (simp add: track_outcome_def Let_def)

lemma track_all_other: "a \<noteq> b \<Longrightarrow> track_all m a rs b = m b"
  by (induction rs arbitrary: m) (simp_all add: track_outcome_other)

lemma track_outcome_failed: "failed r \<Longrightarrow> track_outcome m n r n = Some ''failed''"
  by (simp add: track_outcome_def Let_def)

lemma track_outcome_keeps_failed:
  "m n = Some ''failed'' \<Longrightarrow> track_outcome m n r n = Some ''failed''"
  by (simp add: track_outcome_def Let_def dict_get_def)

lemma track_all_keeps_failed:
  "m n = Some ''failed'' \<Longrightarrow> track_all m n rs n = Some ''failed''"
  by (induction rs arbitrary: m) (simp_all add: track_outcome_keeps_failed)

lemma track_all_failed:
  "\<exists>r \<in> set rs. failed r \<Longrightarrow> track_all m n rs n = Some ''failed''"
proof (induction rs arbitrary: m)
  case Nil
  then show ?case by simp
next
  case (Cons r rs)
  show ?case
  proof (cases "failed r")
    case True
    then show ?thesis
      by (simp add: track_all_keeps_failed track_outcome_failed)
  next
    case False
    with Cons.prems have "\<exists>r \<in> set rs. failed r" by simp
    then show ?thesis by (simp add: Cons.IH)
  qed
qed

lemma track_outcome_worse:
  assumes "TestReport r"
    and "dict_get m n ''passed'' = ''passed'' \<or> dict_get m n ''passed'' = ''skipped''
         \<or> dict_get m n ''passed'' = ''failed''"
  shows "dict_get (track_outcome m n r) n ''passed'' = worse (dict_get m n ''passed'') (outcome r)"
  using assms
  by (auto simp: track_outcome_def TestReport_def Let_def dict_get_def worse_def precedence_def
      split: option.splits)

lemma worse_three:
  assumes "a = ''passed'' \<or> a = ''skipped'' \<or> a = ''failed''"
    and "b = ''passed'' \<or> b = ''skipped'' \<or> b = ''failed''"
  shows "worse a b = ''passed'' \<or> worse a b = ''skipped'' \<or> worse a b = ''failed''"
  using assms by (auto simp: worse_def)

lemma track_all_worst:
  assumes "\<forall>r \<in> set rs. TestReport r"
    and "dict_get m n ''passed'' = ''passed'' \<or> dict_get m n ''passed'' = ''skipped''
         \<or> dict_get m n ''passed'' = ''failed''"
  shows "dict_get (track_all m n rs) n ''passed'' = foldl worse (dict_get m n ''passed'') (map outcome rs)"
  using assms
proof (induction rs arbitrary: m)
  case Nil
  then show ?case by simp
next
  case (Cons r rs)
  have r: "TestReport r" using Cons.prems(1) by simp
  have step: "dict_get (track_outcome m n r) n ''passed'' = worse (dict_get m n ''passed'') (outcome r)"
    using r Cons.prems(2) by (rule track_outcome_worse)
  have "outcome r = ''passed'' \<or> outcome r = ''skipped'' \<or> outcome r = ''failed''"
    using r by (auto simp: TestReport_def)
  with Cons.prems(2) have three: "dict_get (track_outcome m n r) n ''passed'' = ''passed''
      \<or> dict_get (track_outcome m n r) n ''passed'' = ''skipped''
      \<or> dict_get (track_outcome m n r) n ''passed'' = ''failed''"
    unfolding step by (rule worse_three)
  have "\<forall>r \<in> set rs. TestReport r" using Cons.prems(1) by simp
  from Cons.IH [OF this three] show ?case by (simp add: step)
qed

lemma track_outcome_swap:
  assumes "TestReport a" and "TestReport b"
  shows "dict_get (track_outcome (track_outcome m n a) n b) n ''passed''
       = dict_get (track_outcome (track_outcome m n b) n a) n ''passed''"
  using assms
  by (auto simp: track_outcome_def TestReport_def Let_def dict_get_def split: option.splits)

section \<open>The wrapped execution\<close>

lemma finally_block_fields:
  "test_outcomes (finally_block e n out s) = dict_pop (test_outcomes s) n"
  "ended (finally_block e n out s) =
     (if end_test_fails e n then ended s
      else case test_spans s n of None \<Rightarrow> ended s | Some sp \<Rightarrow> ended s @ [(n, sp, out)])"
  by (simp_all add: finally_block_def end_test_def logger_warning_def Let_def split: option.split)

lemma protocol_ended:
  assumes "enabled s" and "\<not> start_test_fails e n"
  shows "ended (snd (pytest_runtest_protocol e n reports ending s)) =
     (if end_test_fails e n then ended s
      else ended s @ [(n, new_span e n,
             case ending of
               Inr res \<Rightarrow> dict_get (track_all (dict_pop (test_outcomes s) n) n (map fst reports)) n ''passed''
             | Inl (Exception msg) \<Rightarrow> ''error''
             | Inl (BaseException msg) \<Rightarrow> ''passed'')])"
  using assms
  by (simp add: pytest_runtest_protocol_def start_test_def Let_def run_reports_fields
      finally_block_fields record_exception_def split: sum.split exn.split)

lemma protocol_outcomes:
  "test_outcomes (snd (pytest_runtest_protocol e n reports ending s)) =
     (if \<not> enabled s then test_outcomes s
      else if start_test_fails e n
      then track_all (dict_pop (test_outcomes s) n) n (map fst reports)
      else dict_pop (track_all (dict_pop (test_outcomes s) n) n (map fst reports)) n)"
  by (simp add: pytest_runtest_protocol_def start_test_def Let_def run_reports_fields
      finally_block_fields record_exception_def logger_warning_def split: sum.split exn.split)

lemma makereport_emitted:
  "emitted (snd (pytest_runtest_makereport e n x r s)) =
     (if enabled s \<and> (when' r = ''call'' \<or> failed r) \<and> \<not> get_logger_fails e
      then emitted s @ filter (\<lambda>a. \<not> emit_fails e a) (artifacts r (test_spans s n))
      else emitted s)"
  by (simp add: pytest_runtest_makereport_def Let_def capture_test_output_eq note_missing_span_def
      get_test_span_def logger_debug_def logger_warning_def record_exception_def split: option.split)


section \<open>The claims\<close>

text \<open>
  C1. The outcome tracking of \<^verbatim>\<open>pytest_runtest_makereport\<close> follows the precedence
  rule and does nothing else: a failed report sets \<open>failed\<close> whatever was tracked;
  otherwise a skipped report sets \<open>skipped\<close> if the tracked outcome is still
  \<open>passed\<close> (tracked as such, or by default); otherwise a report of the call phase, the
  tracked outcome still being \<open>passed\<close>, sets the report's raw outcome as it is;
  otherwise the table is unchanged. In particular a report of another phase that is neither
  failed nor skipped leaves the table as it was. The table after the hook is the table so
  tracked when the plugin is enabled, and the table before the hook when it is not.
\<close>

theorem C1_record_precedence:
  "track_outcome m n r =
     (if failed r then m(n \<mapsto> ''failed'')
      else if skipped r \<and> dict_get m n ''passed'' = ''passed'' then m(n \<mapsto> ''skipped'')
      else if when' r = ''call'' \<and> dict_get m n ''passed'' = ''passed'' then m(n \<mapsto> outcome r)
      else m) \<and>
   (when' r \<noteq> ''call'' \<and> \<not> failed r \<and> \<not> skipped r \<longrightarrow> track_outcome m n r = m) \<and>
   test_outcomes (snd (pytest_runtest_makereport e n x r s)) =
     (if enabled s then track_outcome (test_outcomes s) n r else test_outcomes s)"
proof -
  have rule: "track_outcome m n r =
     (if failed r then m(n \<mapsto> ''failed'')
      else if skipped r \<and> dict_get m n ''passed'' = ''passed'' then m(n \<mapsto> ''skipped'')
      else if when' r = ''call'' \<and> dict_get m n ''passed'' = ''passed'' then m(n \<mapsto> outcome r)
      else m)"
    by (simp add: track_outcome_def Let_def)
  have idle: "when' r \<noteq> ''call'' \<and> \<not> failed r \<and> \<not> skipped r \<longrightarrow> track_outcome m n r = m"
    by (simp add: rule)
  show ?thesis
    using rule idle by (simp add: makereport_fields)
qed

theorem C1_record_precedence_witness:
  "when' (report_of ''teardown'' ''passed'') \<noteq> ''call'' \<and>
   \<not> failed (report_of ''teardown'' ''passed'') \<and> \<not> skipped (report_of ''teardown'' ''passed'') \<and>
   track_outcome [''t'' \<mapsto> ''passed''] ''t'' (report_of ''teardown'' ''passed'') = [''t'' \<mapsto> ''passed''] \<and>
   test_outcomes (snd (pytest_runtest_makereport env_ok ''t'' None
                         (report_of ''call'' ''failed'') plugin0)) = [''t'' \<mapsto> ''failed''] \<and>
   test_outcomes (snd (pytest_runtest_makereport env_ok ''t'' None
                         (report_of ''setup'' ''skipped'') plugin0)) = [''t'' \<mapsto> ''skipped''] \<and>
   test_outcomes (snd (pytest_runtest_makereport env_ok ''t'' None
                         (report_of ''call'' ''passed'') plugin0)) = [''t'' \<mapsto> ''passed''] \<and>
   test_outcomes (snd (pytest_runtest_makereport env_ok ''t'' None
                         (report_of ''teardown'' ''passed'') plugin0)) = Map.empty"
  using C1_record_precedence [of "[''t'' \<mapsto> ''passed'']" "''t''" "report_of ''teardown'' ''passed''" env_ok None plugin0]
    C1_record_precedence [of Map.empty "''t''" "report_of ''call'' ''failed''" env_ok None plugin0]
    C1_record_precedence [of Map.empty "''t''" "report_of ''setup'' ''skipped''" env_ok None plugin0]
    C1_record_precedence [of Map.empty "''t''" "report_of ''call'' ''passed''" env_ok None plugin0]
    C1_record_precedence [of Map.empty "''t''" "report_of ''teardown'' ''passed''" env_ok None plugin0]
  by (simp add: plugin0_def report_of_def dict_get_def)

text \<open>
  C2. The claim is that the tracked outcome of a test is cleared on every path through
  \<^verbatim>\<open>pytest_runtest_protocol\<close>, also when \<^verbatim>\<open>tracer.start_test\<close> raised. The
  run below has the plugin enabled and \<^verbatim>\<open>start_test\<close> raising: the hook logs a
  warning and returns through \<^verbatim>\<open>return (yield)\<close>, the reports of the test are still
  tracked, and the entry \<open>failed\<close> is left in the table when the hook has returned. The
  same run with a tracer that starts the span ends with no entry.
\<close>

theorem C2_entry_survives_failed_start:
  "enabled plugin0 \<and> start_test_fails env_no_span ''t'' \<and>
   test_outcomes (snd (pytest_runtest_protocol env_no_span ''t''
      [(report_of ''setup'' ''passed'', None),
       (report_of ''call'' ''failed'', Some (Exception ''AssertionError'')),
       (report_of ''teardown'' ''passed'', None)] (Inr ()) plugin0)) ''t'' = Some ''failed'' \<and>
   test_outcomes (snd (pytest_runtest_protocol env_ok ''t''
      [(report_of ''setup'' ''passed'', None),
       (report_of ''call'' ''failed'', Some (Exception ''AssertionError'')),
       (report_of ''teardown'' ''passed'', None)] (Inr ()) plugin0)) ''t'' = None"
  by (simp add: pytest_runtest_protocol_def env_no_span_def env_ok_def plugin0_def report_of_def
      start_test_def end_test_def finally_block_def Let_def pytest_runtest_makereport_def
      track_outcome_def dict_get_def dict_pop_def logger_warning_def logger_debug_def
      record_exception_def capture_test_output_def get_test_span_def)

text \<open>
  C3, as amended. Let the plugin be enabled, the span of the test started and
  \<^verbatim>\<open>tracer.end_test\<close> not raise, and let one of the test's reports be failed. If the
  wrapped execution returns, the span is ended with the outcome \<open>failed\<close>. If an
  \<^verbatim>\<open>Exception\<close> leaves the wrapped execution, the span is ended with the outcome
  \<open>error\<close>, whatever the reports were.
\<close>

theorem C3_span_outcome:
  assumes "enabled s" and "\<not> start_test_fails e n" and "\<not> end_test_fails e n"
    and "\<exists>r \<in> set (map fst reports). failed r"
  shows "(\<forall>res. ending = Inr res \<longrightarrow>
            ended (snd (pytest_runtest_protocol e n reports ending s))
              = ended s @ [(n, new_span e n, ''failed'')]) \<and>
         (\<forall>msg. ending = Inl (Exception msg) \<longrightarrow>
            ended (snd (pytest_runtest_protocol e n reports ending s))
              = ended s @ [(n, new_span e n, ''error'')])"
proof -
  have "track_all (dict_pop (test_outcomes s) n) n (map fst reports) n = Some ''failed''"
    using assms(4) by (rule track_all_failed)
  then have "dict_get (track_all (dict_pop (test_outcomes s) n) n (map fst reports)) n ''passed''
      = ''failed''"
    by (simp add: dict_get_def)
  then show ?thesis
    using assms(1-3) by (simp add: protocol_ended)
qed

theorem C3_span_outcome_witness:
  "enabled plugin0 \<and> \<not> start_test_fails env_ok ''t'' \<and> \<not> end_test_fails env_ok ''t'' \<and>
   failed (report_of ''call'' ''failed'') \<and>
   ended (snd (pytest_runtest_protocol env_ok ''t''
      [(report_of ''call'' ''failed'', None), (report_of ''teardown'' ''passed'', None)]
      (Inr ()) plugin0))
     = [(''t'', \<lparr>span_name = ''t'', is_recording = True\<rparr>, ''failed'')] \<and>
   ended (snd (pytest_runtest_protocol env_ok ''t''
      [(report_of ''call'' ''failed'', None), (report_of ''teardown'' ''passed'', None)]
      (Inl (Exception ''INTERNALERROR'') :: exn + unit) plugin0))
     = [(''t'', \<lparr>span_name = ''t'', is_recording = True\<rparr>, ''error'')]"
  using C3_span_outcome [of plugin0 env_ok "''t''"
      "[(report_of ''call'' ''failed'', None), (report_of ''teardown'' ''passed'', None)]"
      "Inr ()"]
    C3_span_outcome [of plugin0 env_ok "''t''"
      "[(report_of ''call'' ''failed'', None), (report_of ''teardown'' ''passed'', None)]"
      "Inl (Exception ''INTERNALERROR'') :: exn + unit"]
  by (simp add: plugin0_def env_ok_def report_of_def)

text \<open>
  The claim C3 as the spec states it fails: a failed report of the call phase is tracked,
  then an exception leaves the wrapped execution, and the span is ended with \<open>error\<close>.
\<close>

theorem C3_counterexample:
  "failed (report_of ''call'' ''failed'') \<and>
   ended (snd (pytest_runtest_protocol env_ok ''t''
      [(report_of ''setup'' ''passed'', None),
       (report_of ''call'' ''failed'', Some (Exception ''AssertionError''))]
      (Inl (Exception ''INTERNALERROR'') :: exn + unit) plugin0))
     = [(''t'', \<lparr>span_name = ''t'', is_recording = True\<rparr>, ''error'')]"
  by (simp add: pytest_runtest_protocol_def env_ok_def plugin0_def report_of_def
      start_test_def end_test_def finally_block_def Let_def pytest_runtest_makereport_def
      track_outcome_def dict_get_def dict_pop_def logger_warning_def logger_debug_def
      record_exception_def capture_test_output_def get_test_span_def)

text \<open>
  C4, as amended. For reports as pytest's \<^verbatim>\<open>TestReport\<close> makes them (the raw outcome
  is \<open>passed\<close>, \<open>failed\<close> or \<open>skipped\<close>, and the flags \<open>failed\<close> and
  \<open>skipped\<close> say which), the outcome resolved after any sequence of reports of one
  test, tracked from an empty entry, is the worst outcome among the reports under the
  precedence \<open>failed > error > skipped > passed\<close> (\<open>passed\<close> when there is none);
  and two reports tracked in either order, such as a teardown report and a call report,
  resolve to the same outcome, from any state.
\<close>

theorem C4_precedence_and_order:
  assumes "enabled s" and "test_outcomes s n = None"
    and "\<forall>r \<in> set (map fst rs). TestReport r"
    and "TestReport t" and "TestReport c"
  shows "dict_get (test_outcomes (run_reports e n rs s)) n ''passed''
           = foldl worse ''passed'' (map (outcome \<circ> fst) rs) \<and>
         precedence ''failed'' > precedence ''error'' \<and>
         precedence ''error'' > precedence ''skipped'' \<and>
         precedence ''skipped'' > precedence ''passed'' \<and>
         dict_get (test_outcomes (run_reports e n [(t, xt), (c, xc)] s')) n ''passed''
           = dict_get (test_outcomes (run_reports e n [(c, xc), (t, xt)] s')) n ''passed''"
proof -
  have start: "dict_get (test_outcomes s) n ''passed'' = ''passed''"
    using assms(2) by (simp add: dict_get_def)
  have "dict_get (track_all (test_outcomes s) n (map fst rs)) n ''passed''
      = foldl worse (dict_get (test_outcomes s) n ''passed'') (map outcome (map fst rs))"
    using assms(3) by (intro track_all_worst) (simp_all add: start)
  then have first: "dict_get (test_outcomes (run_reports e n rs s)) n ''passed''
      = foldl worse ''passed'' (map (outcome \<circ> fst) rs)"
    using assms(1) by (simp add: run_reports_fields start)
  have second: "dict_get (test_outcomes (run_reports e n [(t, xt), (c, xc)] s')) n ''passed''
      = dict_get (test_outcomes (run_reports e n [(c, xc), (t, xt)] s')) n ''passed''"
    using track_outcome_swap [OF assms(4,5), of "test_outcomes s'" n]
    by (simp add: makereport_fields)
  show ?thesis
    using first second by (simp add: precedence_def)
qed

theorem C4_precedence_and_order_witness:
  "enabled plugin0 \<and> test_outcomes plugin0 ''t'' = None \<and>
   TestReport (report_of ''setup'' ''passed'') \<and> TestReport (report_of ''call'' ''skipped'') \<and>
   TestReport (report_of ''call'' ''failed'') \<and> TestReport (report_of ''teardown'' ''failed'') \<and>
   TestReport (report_of ''teardown'' ''skipped'') \<and> TestReport (report_of ''call'' ''passed'') \<and>
   dict_get (test_outcomes (run_reports env_ok ''t''
       [(report_of ''setup'' ''passed'', None), (report_of ''call'' ''skipped'', None),
        (report_of ''teardown'' ''failed'', None)] plugin0)) ''t'' ''passed'' = ''failed'' \<and>
   dict_get (test_outcomes (run_reports env_ok ''t''
       [(report_of ''teardown'' ''skipped'', None), (report_of ''call'' ''passed'', None)]
       plugin0)) ''t'' ''passed'' = ''skipped'' \<and>
   dict_get (test_outcomes (run_reports env_ok ''t''
       [(report_of ''call'' ''passed'', None), (report_of ''teardown'' ''skipped'', None)]
       plugin0)) ''t'' ''passed'' = ''skipped''"
  using C4_precedence_and_order [of plugin0 "''t''"
      "[(report_of ''setup'' ''passed'', None), (report_of ''call'' ''skipped'', None),
        (report_of ''teardown'' ''failed'', None)]"
      "report_of ''teardown'' ''skipped''" "report_of ''call'' ''passed''" env_ok None None plugin0]
  by (simp add: plugin0_def report_of_def TestReport_def worse_def precedence_def
      pytest_runtest_makereport_def track_outcome_def dict_get_def Let_def
      capture_test_output_def get_test_span_def logger_debug_def)

text \<open>
  The claim C4 as the spec states it, for all phase reports, fails: a call report that is
  neither failed nor skipped and whose raw outcome is \<open>error\<close>, and a skipped teardown
  report, resolve to \<open>skipped\<close> in one order and to \<open>error\<close> in the other; in
  the first order the resolved outcome is not the worst of the two.
\<close>

theorem C4_counterexample:
  "\<not> failed (report_of ''call'' ''error'') \<and> \<not> skipped (report_of ''call'' ''error'') \<and>
   dict_get (test_outcomes (run_reports env_ok ''t''
       [(report_of ''teardown'' ''skipped'', None), (report_of ''call'' ''error'', None)]
       plugin0)) ''t'' ''passed'' = ''skipped'' \<and>
   dict_get (test_outcomes (run_reports env_ok ''t''
       [(report_of ''call'' ''error'', None), (report_of ''teardown'' ''skipped'', None)]
       plugin0)) ''t'' ''passed'' = ''error''"
  by (simp add: plugin0_def report_of_def pytest_runtest_makereport_def track_outcome_def
      dict_get_def Let_def capture_test_output_def get_test_span_def logger_debug_def)

text \<open>
  C5, as amended. For a report of a phase other than the call phase, what decides is
  whether the report itself is failed. If it is not, \<^verbatim>\<open>_capture_test_output\<close> returns
  at once and the hook emits nothing. If it is, its captured output and failure detail are
  emitted as for a call report. So whenever the hook emits something for such a report, the
  report is failed and the tracked outcome of the test is \<open>failed\<close>.
\<close>

theorem C5_own_failure_gate:
  assumes "when' r \<noteq> ''call''"
  shows "(\<not> failed r \<longrightarrow>
            capture_test_output e n r s = (None, s) \<and>
            emitted (snd (pytest_runtest_makereport e n x r s)) = emitted s) \<and>
         (failed r \<and> \<not> get_logger_fails e \<and> (\<forall>a. \<not> emit_fails e a) \<longrightarrow>
            emitted (snd (capture_test_output e n r s))
              = emitted s @ artifacts r (get_test_span n s)) \<and>
         (enabled s \<and> emitted (snd (pytest_runtest_makereport e n x r s)) \<noteq> emitted s \<longrightarrow>
            failed r \<and>
            dict_get (test_outcomes (snd (pytest_runtest_makereport e n x r s))) n ''passed''
              = ''failed'')"
proof -
  have quiet: "\<not> failed r \<longrightarrow>
      capture_test_output e n r s = (None, s) \<and>
      emitted (snd (pytest_runtest_makereport e n x r s)) = emitted s"
    using assms by (simp add: capture_test_output_eq makereport_emitted)
  have loud: "failed r \<and> \<not> get_logger_fails e \<and> (\<forall>a. \<not> emit_fails e a) \<longrightarrow>
      emitted (snd (capture_test_output e n r s)) = emitted s @ artifacts r (get_test_span n s)"
    by (simp add: capture_test_output_eq note_missing_span_def logger_debug_def)
  have tracked: "enabled s \<and> failed r \<longrightarrow>
      dict_get (test_outcomes (snd (pytest_runtest_makereport e n x r s))) n ''passed'' = ''failed''"
    by (simp add: makereport_fields track_outcome_failed dict_get_def)
  show ?thesis
    using quiet loud tracked by blast
qed

theorem C5_own_failure_gate_witness:
  "when' ((report_of ''teardown'' ''failed'')\<lparr>capstderr := Some [101, 114, 114]\<rparr>) \<noteq> ''call'' \<and>
   when' ((report_of ''setup'' ''passed'')\<lparr>capstdout := Some [111, 117, 116]\<rparr>) \<noteq> ''call'' \<and>
   \<not> get_logger_fails env_ok \<and> (\<forall>a. \<not> emit_fails env_ok a) \<and> enabled plugin0 \<and>
   capture_test_output env_ok ''t''
       ((report_of ''setup'' ''passed'')\<lparr>capstdout := Some [111, 117, 116]\<rparr>) plugin0
     = (None, plugin0) \<and>
   emitted (snd (capture_test_output env_ok ''t''
       ((report_of ''teardown'' ''failed'')\<lparr>capstderr := Some [101, 114, 114]\<rparr>) plugin0))
     = [\<lparr>body = [101, 114, 114], attributes = [(''stdio.stream'', AttrInt 2)],
         log_context = Current\<rparr>] \<and>
   emitted (snd (pytest_runtest_makereport env_ok ''t'' None
       ((report_of ''teardown'' ''failed'')\<lparr>capstderr := Some [101, 114, 114]\<rparr>) plugin0))
     \<noteq> emitted plugin0 \<and>
   dict_get (test_outcomes (snd (pytest_runtest_makereport env_ok ''t'' None
       ((report_of ''teardown'' ''failed'')\<lparr>capstderr := Some [101, 114, 114]\<rparr>) plugin0)))
     ''t'' ''passed'' = ''failed''"
  using C5_own_failure_gate [of "(report_of ''setup'' ''passed'')\<lparr>capstdout := Some [111, 117, 116]\<rparr>"
      env_ok "''t''" plugin0 None]
    C5_own_failure_gate [of "(report_of ''teardown'' ''failed'')\<lparr>capstderr := Some [101, 114, 114]\<rparr>"
      env_ok "''t''" plugin0 None]
  by (simp add: env_ok_def plugin0_def report_of_def artifacts_def stdio_record_def
      context_for_def get_test_span_def STDIO_STREAM_STDERR_def STDIO_STREAM_ATTR_def
      makereport_emitted)

text \<open>
  The claim C5 as the spec states it fails: the test below ends \<open>failed\<close>, its setup
  and teardown reports carry captured output, and nothing is emitted for them.
\<close>

theorem C5_counterexample:
  "truthy (capstdout ((report_of ''setup'' ''passed'')\<lparr>capstdout := Some [111, 117, 116]\<rparr>)) \<and>
   ended (snd (pytest_runtest_protocol env_ok ''t''
      [((report_of ''setup'' ''passed'')\<lparr>capstdout := Some [111, 117, 116]\<rparr>, None),
       (report_of ''call'' ''failed'', Some (Exception ''AssertionError'')),
       ((report_of ''teardown'' ''passed'')\<lparr>capstderr := Some [101, 114, 114]\<rparr>, None)]
      (Inr ()) plugin0))
     = [(''t'', \<lparr>span_name = ''t'', is_recording = True\<rparr>, ''failed'')] \<and>
   emitted (snd (pytest_runtest_protocol env_ok ''t''
      [((report_of ''setup'' ''passed'')\<lparr>capstdout := Some [111, 117, 116]\<rparr>, None),
       (report_of ''call'' ''failed'', Some (Exception ''AssertionError'')),
       ((report_of ''teardown'' ''passed'')\<lparr>capstderr := Some [101, 114, 114]\<rparr>, None)]
      (Inr ()) plugin0)) = []"
  by (simp add: pytest_runtest_protocol_def env_ok_def plugin0_def report_of_def
      start_test_def end_test_def finally_block_def Let_def pytest_runtest_makereport_def
      track_outcome_def dict_get_def dict_pop_def logger_warning_def logger_debug_def
      record_exception_def capture_test_output_def get_test_span_def)

text \<open>
  C6. Let the report be one \<^verbatim>\<open>_capture_test_output\<close> acts on, and let the log pipeline
  accept every record. Then the records emitted are, in this order: for captured stdout
  that is present and not empty, one record on stream 1; for captured stderr likewise, one
  record on stream 2; and for a failed report with a failure detail, one more record on
  stream 2. The body of the first two is the captured text itself when it has at most 8192
  units and its first 8192 units otherwise; the body of the third is the detail under the
  same rule with 16384. A text longer than the cap is cut to exactly the cap.
\<close>

theorem C6_artifact_truncation:
  assumes "when' r = ''call'' \<or> failed r"
    and "\<not> get_logger_fails e" and "\<forall>a. \<not> emit_fails e a"
  shows "emitted (snd (capture_test_output e n r s)) = emitted s @
           (case capstdout r of
              None \<Rightarrow> []
            | Some t \<Rightarrow>
                if t = [] then []
                else [\<lparr>body = (if length t \<le> 8192 then t else take 8192 t),
                       attributes = [(STDIO_STREAM_ATTR, AttrInt STDIO_STREAM_STDOUT)],
                       log_context = context_for (get_test_span n s)\<rparr>]) @
           (case capstderr r of
              None \<Rightarrow> []
            | Some t \<Rightarrow>
                if t = [] then []
                else [\<lparr>body = (if length t \<le> 8192 then t else take 8192 t),
                       attributes = [(STDIO_STREAM_ATTR, AttrInt STDIO_STREAM_STDERR)],
                       log_context = context_for (get_test_span n s)\<rparr>]) @
           (if failed r \<and> longrepr_truthy (longrepr r)
            then [\<lparr>body = (if length (longrepr_str (longrepr r)) \<le> 16384
                           then longrepr_str (longrepr r)
                           else take 16384 (longrepr_str (longrepr r))),
                   attributes = [(STDIO_STREAM_ATTR, AttrInt STDIO_STREAM_STDERR)],
                   log_context = context_for (get_test_span n s)\<rparr>]
            else []) \<and>
         (\<forall>t :: str. 8192 < length t \<longrightarrow> length (take 8192 t) = 8192) \<and>
         (\<forall>t :: str. 16384 < length t \<longrightarrow> length (take 16384 t) = 16384)"
proof -
  have cut: "\<And>k (t :: str). (if length t \<le> k then t else take k t) = take k t"
    by simp
  show ?thesis
    using assms
    by (auto simp: capture_test_output_eq note_missing_span_def logger_debug_def artifacts_def
        stdio_record_def cut split: option.split)
qed

theorem C6_artifact_truncation_witness:
  "(when' long_output_report = ''call'' \<or> failed long_output_report) \<and>
   \<not> get_logger_fails env_ok \<and> (\<forall>a. \<not> emit_fails env_ok a) \<and>
   emitted (snd (capture_test_output env_ok ''t'' long_output_report plugin0)) =
     [\<lparr>body = replicate 8192 120, attributes = [(''stdio.stream'', AttrInt 1)],
       log_context = Current\<rparr>,
      \<lparr>body = [101, 114, 114], attributes = [(''stdio.stream'', AttrInt 2)],
       log_context = Current\<rparr>,
      \<lparr>body = replicate 16384 70, attributes = [(''stdio.stream'', AttrInt 2)],
       log_context = Current\<rparr>] \<and>
   length (take 8192 (replicate 8193 (120 :: nat))) = 8192 \<and>
   length (take 16384 (replicate 20000 (70 :: nat))) = 16384"
  using C6_artifact_truncation [of long_output_report env_ok "''t''" plugin0]
  by (simp add: long_output_report_def env_ok_def plugin0_def context_for_def get_test_span_def
      STDIO_STREAM_STDOUT_def STDIO_STREAM_STDERR_def STDIO_STREAM_ATTR_def)

text \<open>
  C7. \<^verbatim>\<open>_get_severity\<close> is monotone in the level, and maps every integer to a tier of
  the ascending ladder \<open>DEBUG < INFO < WARN < ERROR < FATAL\<close>: a level at or above a
  threshold of \<^verbatim>\<open>logging\<close> and below the next one maps to that threshold's tier, and a
  level below the lowest threshold maps to \<open>DEBUG\<close>, the lowest tier of the ladder.
\<close>

theorem C7_severity_ladder:
  "(l1 \<le> l2 \<longrightarrow> severity_value (get_severity l1) \<le> severity_value (get_severity l2)) \<and>
   (logging_CRITICAL \<le> l \<longrightarrow> get_severity l = FATAL) \<and>
   (logging_ERROR \<le> l \<and> l < logging_CRITICAL \<longrightarrow> get_severity l = ERROR) \<and>
   (logging_WARNING \<le> l \<and> l < logging_ERROR \<longrightarrow> get_severity l = WARN) \<and>
   (logging_INFO \<le> l \<and> l < logging_WARNING \<longrightarrow> get_severity l = INFO) \<and>
   (logging_DEBUG \<le> l \<and> l < logging_INFO \<longrightarrow> get_severity l = DEBUG) \<and>
   (l < logging_DEBUG \<longrightarrow> get_severity l = DEBUG) \<and>
   severity_value DEBUG < severity_value INFO \<and> severity_value INFO < severity_value WARN \<and>
   severity_value WARN < severity_value ERROR \<and> severity_value ERROR < severity_value FATAL \<and>
   severity_value DEBUG \<le> severity_value (get_severity l)"
  using get_severity_mono [of l1 l2]
  by (simp add: get_severity_def logging_CRITICAL_def logging_ERROR_def
      logging_WARNING_def logging_INFO_def logging_DEBUG_def)

theorem C7_severity_ladder_witness:
  "severity_value (get_severity 15) \<le> severity_value (get_severity 45) \<and>
   get_severity 50 = FATAL \<and> get_severity 1000 = FATAL \<and> get_severity 49 = ERROR \<and>
   get_severity 30 = WARN \<and> get_severity 25 = INFO \<and> get_severity 10 = DEBUG \<and>
   get_severity 0 = DEBUG \<and> get_severity (- 7) = DEBUG"
  using C7_severity_ladder [of 15 45 50] C7_severity_ladder [of 0 0 1000]
    C7_severity_ladder [of 0 0 49] C7_severity_ladder [of 0 0 30] C7_severity_ladder [of 0 0 25]
    C7_severity_ladder [of 0 0 10] C7_severity_ladder [of 0 0 0] C7_severity_ladder [of 0 0 "- 7"]
  by (simp add: logging_CRITICAL_def logging_ERROR_def
      logging_WARNING_def logging_INFO_def logging_DEBUG_def)

text \<open>
  C8. The outcome resolved for a test with no entry in the table is \<open>passed\<close>, and so
  is the outcome resolved right after the entry was popped, as the \<^verbatim>\<open>finally\<close> block
  of \<^verbatim>\<open>pytest_runtest_protocol\<close> does. A report of test \<open>a\<close>, a sequence of such
  reports, and the whole wrapped execution of \<open>a\<close> leave the outcome resolved for any
  other test \<open>b\<close> as it was.
\<close>

theorem C8_default_and_isolation:
  "(test_outcomes s n = None \<longrightarrow> dict_get (test_outcomes s) n ''passed'' = ''passed'') \<and>
   dict_get (dict_pop (test_outcomes s) n) n ''passed'' = ''passed'' \<and>
   dict_get (test_outcomes (finally_block e n out s)) n ''passed'' = ''passed'' \<and>
   (a \<noteq> b \<longrightarrow>
      dict_get (test_outcomes (snd (pytest_runtest_makereport e a x r s))) b ''passed''
        = dict_get (test_outcomes s) b ''passed'' \<and>
      dict_get (test_outcomes (run_reports e a rs s)) b ''passed''
        = dict_get (test_outcomes s) b ''passed'' \<and>
      dict_get (test_outcomes (snd (pytest_runtest_protocol e a rs ending s))) b ''passed''
        = dict_get (test_outcomes s) b ''passed'')"
  by (simp add: dict_get_def finally_block_fields dict_pop_def makereport_fields
      run_reports_fields protocol_outcomes track_outcome_other track_all_other)

theorem C8_default_and_isolation_witness:
  "test_outcomes plugin0 ''test_b'' = None \<and>
   dict_get (test_outcomes plugin0) ''test_b'' ''passed'' = ''passed'' \<and>
   ''test_a'' \<noteq> ''test_b'' \<and>
   dict_get (test_outcomes (snd (pytest_runtest_makereport env_ok ''test_a'' None
       (report_of ''call'' ''failed'') plugin0))) ''test_b'' ''passed'' = ''passed'' \<and>
   dict_get (test_outcomes (run_reports env_ok ''test_a''
       [(report_of ''setup'' ''skipped'', None)] plugin0)) ''test_b'' ''passed'' = ''passed'' \<and>
   dict_get (test_outcomes (snd (pytest_runtest_protocol env_ok ''test_a''
       [(report_of ''call'' ''failed'', None)] (Inr ()) plugin0))) ''test_b'' ''passed'' = ''passed''"
  using C8_default_and_isolation [of plugin0 "''test_b''" env_ok "''passed''" "''test_a''" "''test_b''"
      None "report_of ''call'' ''failed''" "[(report_of ''setup'' ''skipped'', None)]" "Inr ()"]
    C8_default_and_isolation [of plugin0 "''test_b''" env_ok "''passed''" "''test_a''" "''test_b''"
      None "report_of ''call'' ''failed''" "[(report_of ''call'' ''failed'', None)]" "Inr ()"]
  by (simp add: plugin0_def)




text \<open>
  C10. \<^verbatim>\<open>emit_stdio_log\<close> with a span whose \<^verbatim>\<open>is_recording()\<close> is false does
  exactly what it does with no span. With a pipeline that accepts the record, the record
  carries the span's context when the span is recording, and the current context when it
  is not or when there is no span.
\<close>

theorem C10_non_recording_span_ignored:
  "(\<not> is_recording sp \<longrightarrow>
      emit_stdio_log e b stream (Some sp) eof s = emit_stdio_log e b stream None eof s) \<and>
   (\<not> get_logger_fails e \<and> (\<forall>a. \<not> emit_fails e a) \<longrightarrow>
      emit_stdio_log e b stream None eof s =
        Inr (s\<lparr>emitted := emitted s @
               [\<lparr>body = b,
                 attributes = (STDIO_STREAM_ATTR, AttrInt stream)
                              # (if eof then [(STDIO_EOF_ATTR, AttrBool True)] else []),
                 log_context = Current\<rparr>]\<rparr>) \<and>
      emit_stdio_log e b stream (Some sp) eof s =
        Inr (s\<lparr>emitted := emitted s @
               [\<lparr>body = b,
                 attributes = (STDIO_STREAM_ATTR, AttrInt stream)
                              # (if eof then [(STDIO_EOF_ATTR, AttrBool True)] else []),
                 log_context = (if is_recording sp then SpanInContext sp else Current)\<rparr>]\<rparr>))"
  by (simp add: emit_stdio_log_def Let_def)

theorem C10_non_recording_span_ignored_witness:
  "\<not> is_recording \<lparr>span_name = ''t'', is_recording = False\<rparr> \<and>
   \<not> get_logger_fails env_ok \<and> (\<forall>a. \<not> emit_fails env_ok a) \<and>
   emit_stdio_log env_ok [111, 117, 116] STDIO_STREAM_STDOUT
       (Some \<lparr>span_name = ''t'', is_recording = False\<rparr>) False plugin0
     = emit_stdio_log env_ok [111, 117, 116] STDIO_STREAM_STDOUT None False plugin0 \<and>
   emit_stdio_log env_ok [111, 117, 116] STDIO_STREAM_STDOUT
       (Some \<lparr>span_name = ''t'', is_recording = False\<rparr>) False plugin0
     = Inr (plugin0\<lparr>emitted :=
         [\<lparr>body = [111, 117, 116], attributes = [(''stdio.stream'', AttrInt 1)],
           log_context = Current\<rparr>]\<rparr>) \<and>
   emit_stdio_log env_ok [111, 117, 116] STDIO_STREAM_STDOUT
       (Some \<lparr>span_name = ''t'', is_recording = True\<rparr>) False plugin0
     = Inr (plugin0\<lparr>emitted :=
         [\<lparr>body = [111, 117, 116], attributes = [(''stdio.stream'', AttrInt 1)],
           log_context = SpanInContext \<lparr>span_name = ''t'', is_recording = True\<rparr>\<rparr>]\<rparr>)"
  using C10_non_recording_span_ignored [of "\<lparr>span_name = ''t'', is_recording = False\<rparr>" env_ok
      "[111, 117, 116]" STDIO_STREAM_STDOUT False plugin0]
    C10_non_recording_span_ignored [of "\<lparr>span_name = ''t'', is_recording = True\<rparr>" env_ok
      "[111, 117, 116]" STDIO_STREAM_STDOUT False plugin0]
  by (simp add: env_ok_def plugin0_def STDIO_STREAM_STDOUT_def STDIO_STREAM_ATTR_def)

end
